theory Spec2Isabelle
  imports Main
begin

section \<open>Strings\<close>

text \<open>
  A Python \<open>str\<close> is modelled by the list of the bytes of its UTF-8 encoding, a
  \<open>bytes\<close> object by the list of its bytes. Everything the module does with text
  (searching for an ASCII marker, stripping ASCII characters, scanning a format string for
  braces, percent-encoding) reads the same on the encoded form, since no byte of a
  multi-byte UTF-8 sequence is an ASCII byte.
\<close>

text \<open>\<open>sub in s\<close> on strings: \<open>sub\<close> occurs in \<open>s\<close> as a contiguous run.\<close>

fun str_contains :: "string \<Rightarrow> string \<Rightarrow> bool" where
  "str_contains sub [] = (sub = [])"
| "str_contains sub (c # cs) = (take (length sub) (c # cs) = sub \<or> str_contains sub cs)"

text \<open>
  \<open>s.strip(chars)\<close>: the characters of \<open>chars\<close> are a set; every leading and every
  trailing character of \<open>s\<close> that belongs to it is removed.
\<close>

definition strip :: "string \<Rightarrow> string \<Rightarrow> string" where
  "strip chars s =
     rev (dropWhile (\<lambda>c. c \<in> set chars) (rev (dropWhile (\<lambda>c. c \<in> set chars) s)))"

text \<open>\<open>str(n)\<close> for an integer: decimal digits, with a minus sign when negative.\<close>

function str_nat :: "nat \<Rightarrow> string" where
  "str_nat n =
     (if n < 10 then [''0123456789'' ! n]
      else str_nat (n div 10) @ [''0123456789'' ! (n mod 10)])"
  by pat_completeness auto
termination
  by (relation "measure id") auto

definition str_int :: "int \<Rightarrow> string" where
  "str_int i = (if i < 0 then CHR ''-'' # str_nat (nat (- i)) else str_nat (nat i))"

section \<open>Errors\<close>

text \<open>
  JSON documents as \<open>r.json()\<close> returns them. A JSON object is the list of the items
  of the resulting \<open>dict\<close>. Numbers are integers; no operation of the module computes
  with a number of a response.
\<close>

datatype json_value =
    JNull
  | JBool bool
  | JNum int
  | JStr string
  | JArr "json_value list"
  | JObj "(string \<times> json_value) list"

text \<open>
  A response of the underlying HTTP library: the status code (\<open>r.status_code\<close> of
  requests, \<open>resp.status\<close> of aiohttp), the raw body (\<open>r.content\<close>, \<open>await r.read()\<close>)
  and the outcome of \<open>r.json()\<close>, which is \<open>None\<close> when decoding the body raises.
\<close>

record response =
  status_code :: int
  content :: string
  json :: "json_value option"

text \<open>
  Every exception the modelled code can raise. \<open>HTTPException\<close> is the exception of
  \<open>redgifs.errors\<close>, built from the raw response and the parsed body. \<open>ConnectionError\<close>
  stands for whatever the session raises when no response arrives. \<open>TypeError\<close> carries
  its message; \<open>TypeError_arguments\<close> is the \<open>TypeError\<close> a call raises when a keyword
  names an argument that is already given (its text names the function and the keyword
  and is not modelled). \<open>NotModelled\<close> is not a Python exception: it marks a format field
  that uses a conversion, a format specification, an attribute or an index, or whose name
  holds a byte outside ASCII, which the model of \<open>str.format_map\<close> does not interpret.
\<close>

datatype py_error =
    KeyError string
  | ValueError
  | TypeError string
  | TypeError_arguments
  | RuntimeError string
  | OSError
  | JSONDecodeError
  | ConnectionError
  | HTTPException response json_value
  | NotModelled

text \<open>The result of a call that may raise, with text put in front of a returned string.\<close>

definition prepend :: "string \<Rightarrow> py_error + string \<Rightarrow> py_error + string" where
  "prepend s r = (case r of Inl e \<Rightarrow> Inl e | Inr t \<Rightarrow> Inr (s @ t))"

text \<open>
  Keyword arguments are the items of a \<open>dict\<close>. A call that passes them with \<open>**\<close> raises
  \<open>TypeError\<close> when one of their names is the name of an argument the call already gives.
\<close>

definition keyword_clash :: "string list \<Rightarrow> (string \<times> 'a) list \<Rightarrow> bool" where
  "keyword_clash given kwargs = list_ex (\<lambda>k. k \<in> set given) (map fst kwargs)"

section \<open>\<open>urllib.parse.quote\<close>\<close>

text \<open>
  \<open>quote(string)\<close> with its default arguments \<open>safe='/'\<close> and UTF-8: every byte that is
  an ASCII letter, a digit, one of \<open>_.-~\<close> or a character of \<open>safe\<close> is kept, every
  other byte \<open>b\<close> becomes \<open>'%{:02X}'.format(b)\<close>.
\<close>

definition ALWAYS_SAFE :: string where
  "ALWAYS_SAFE =
     ''ABCDEFGHIJKLMNOPQRSTUVWXYZ'' @ ''abcdefghijklmnopqrstuvwxyz'' @ ''0123456789'' @ ''_.-~''"

definition hex_digit :: "nat \<Rightarrow> char" where
  "hex_digit n = ''0123456789ABCDEF'' ! n"

definition percent_byte :: "char \<Rightarrow> string" where
  "percent_byte c = [CHR ''%'', hex_digit (of_char c div 16), hex_digit (of_char c mod 16)]"

definition quoter :: "string \<Rightarrow> char \<Rightarrow> string" where
  "quoter safe c = (if c \<in> set (ALWAYS_SAFE @ safe) then [c] else percent_byte c)"

definition quote :: "string \<Rightarrow> string" where
  "quote s = concat (map (quoter ''/'') s)"

section \<open>\<open>str.format_map\<close>\<close>

text \<open>
  The values a route parameter can take: text, an integer, a boolean.
  \<open>format(v, '')\<close>, which a replacement field without format specification calls, is the
  string itself, the decimal form of an integer, \<open>True\<close> or \<open>False\<close>. Whether an integer
  of more than 4300 digits is converted depends on the interpreter (CPython 3.11 raises
  \<open>ValueError\<close> unless its limit is changed, older versions convert); the model does not
  decide it and gives \<open>NotModelled\<close>.
\<close>

datatype param = PStr string | PInt int | PBool bool

definition int_max_str_digits :: nat where
  "int_max_str_digits = 4300"

fun format_value :: "param \<Rightarrow> py_error + string" where
  "format_value (PStr s) = Inr s"
| "format_value (PInt i) =
     (if int_max_str_digits < length (str_nat (nat \<bar>i\<bar>)) then Inl NotModelled
      else Inr (str_int i))"
| "format_value (PBool b) = Inr (if b then ''True'' else ''False'')"

text \<open>
  A field name that is empty or consists of decimal digits is a positional field;
  \<open>format_map\<close> has no positional arguments and raises \<open>ValueError\<close> for it. Python
  counts every decimal digit of Unicode here; the model decides this for ASCII names only
  and gives \<open>NotModelled\<close> for a name that holds any other byte.
\<close>

definition positional :: "string \<Rightarrow> bool" where
  "positional name = list_all (\<lambda>c. c \<in> set ''0123456789'') name"

text \<open>
  The scanner of \<open>format_map\<close>, left to right: outside a field it copies text, turns
  \<open>{{\<close> and \<open>}}\<close> into one brace and raises \<open>ValueError\<close> for a single \<open>}\<close> or a \<open>{\<close>
  at the end; inside a field it collects the name up to \<open>}\<close>, looks it up in the mapping
  (\<open>KeyError\<close> when absent) and writes \<open>format(value, '')\<close>. The errors come in the order
  Python raises them: the first offending position decides.
\<close>

datatype scan = Literal | Field string

fun format_scan :: "(string \<Rightarrow> param option) \<Rightarrow> scan \<Rightarrow> string \<Rightarrow> py_error + string" where
  "format_scan m Literal [] = Inr []"
| "format_scan m Literal [c] =
     (if c = CHR ''{'' \<or> c = CHR ''}'' then Inl ValueError else Inr [c])"
| "format_scan m Literal (c # d # cs) =
     (if c = CHR ''{'' then
        (if d = CHR ''{'' then prepend [CHR ''{''] (format_scan m Literal cs)
         else format_scan m (Field []) (d # cs))
      else if c = CHR ''}'' then
        (if d = CHR ''}'' then prepend [CHR ''}''] (format_scan m Literal cs)
         else Inl ValueError)
      else prepend [c] (format_scan m Literal (d # cs)))"
| "format_scan m (Field acc) [] = Inl ValueError"
| "format_scan m (Field acc) (c # cs) =
     (if c = CHR ''}'' then
        (if positional (rev acc) then Inl ValueError
         else case m (rev acc) of
                None \<Rightarrow> Inl (KeyError (rev acc))
              | Some v \<Rightarrow>
                  (case format_value v of
                     Inl e \<Rightarrow> Inl e
                   | Inr t \<Rightarrow> prepend t (format_scan m Literal cs)))
      else if c = CHR ''{'' then Inl ValueError
      else if c \<in> set ''!:.['' \<or> (128::nat) \<le> of_char c then Inl NotModelled
      else format_scan m (Field (c # acc)) cs)"

definition format_map :: "string \<Rightarrow> (string \<times> param) list \<Rightarrow> py_error + string" where
  "format_map s mapping = format_scan (map_of mapping) Literal s"

section \<open>Route\<close>

record route =
  route_method :: string
  route_path :: string
  route_url :: string

definition BASE :: string where
  "BASE = ''https://api.redgifs.com''"

text \<open>
  The dictionary comprehension of \<open>Route.__init__\<close>:
  \<open>{k: quote(v) if isinstance(v, str) else v for k, v in parameters.items()}\<close>.
\<close>

fun quote_if_str :: "param \<Rightarrow> param" where
  "quote_if_str (PStr s) = PStr (quote s)"
| "quote_if_str v = v"

definition quoted_parameters :: "(string \<times> param) list \<Rightarrow> (string \<times> param) list" where
  "quoted_parameters parameters = map (\<lambda>(k, v). (k, quote_if_str v)) parameters"

text \<open>
  \<open>Route(method, path, **parameters)\<close>, a call of
  \<open>__init__(self, method, path, **parameters)\<close>: a parameter named \<open>self\<close>, \<open>method\<close>
  or \<open>path\<close> makes the call raise \<open>TypeError\<close> before the body runs. In the body,
  \<open>if parameters\<close> tests that the \<open>dict\<close> is not empty. The result is the constructed
  object, or the exception raised.
\<close>

definition Route :: "string \<Rightarrow> string \<Rightarrow> (string \<times> param) list \<Rightarrow> py_error + route" where
  "Route method path parameters =
     (if keyword_clash [''self'', ''method'', ''path''] parameters then Inl TypeError_arguments
      else
        let url = BASE @ path in
        if parameters \<noteq> [] then
          (case format_map url (quoted_parameters parameters) of
             Inl e \<Rightarrow> Inl e
           | Inr url' \<Rightarrow> Inr \<lparr>route_method = method, route_path = path, route_url = url'\<rparr>)
        else Inr \<lparr>route_method = method, route_path = path, route_url = url\<rparr>)"

section \<open>The environment of a transport\<close>

text \<open>
  What the module reads of a \<open>yarl.URL\<close>: its scheme, \<open>.host\<close> (\<open>None\<close> when the URL
  has none), \<open>.path\<close>, \<open>str(url)\<close> and its truth value.
\<close>

record yarl_url =
  url_scheme :: string
  url_host :: "string option"
  url_path :: string
  url_str :: string
  url_true :: bool

text \<open>
  An object a caller can pass as \<open>session\<close>, by its class and identity: an instance of
  \<open>requests.Session\<close>, of \<open>aiohttp.ClientSession\<close> (subclasses included), or of any other
  class. Session objects are true in a boolean context.
\<close>

datatype py_object = RequestsSession nat | AiohttpSession nat | OtherObject nat

fun isinstance_requests_Session :: "py_object \<Rightarrow> bool" where
  "isinstance_requests_Session (RequestsSession i) = True"
| "isinstance_requests_Session v = False"

fun isinstance_aiohttp_ClientSession :: "py_object \<Rightarrow> bool" where
  "isinstance_aiohttp_ClientSession (AiohttpSession i) = True"
| "isinstance_aiohttp_ClientSession v = False"

text \<open>
  One call of \<open>session.request\<close> or \<open>session.get\<close>: the session it is made on and the
  arguments it is given. \<open>call_proxies\<close>, \<open>call_auth\<close> and \<open>call_timeout\<close> (in seconds) are
  the keywords of requests, \<open>call_proxy\<close> and \<open>call_proxy_auth\<close> those of aiohttp; a
  keyword that is not passed is \<open>None\<close>. \<open>call_kwargs\<close> are the caller's extra options.
\<close>

record http_call =
  call_session :: py_object
  call_method :: string
  call_url :: string
  call_headers :: "(string \<times> string) list"
  call_proxies :: "(string \<times> string) list option"
  call_auth :: "(string \<times> string) option"
  call_timeout :: "nat option"
  call_proxy :: "string option"
  call_proxy_auth :: "(string \<times> string) option"
  call_kwargs :: "(string \<times> string) list"

text \<open>
  The download target \<open>fp\<close>: a filesystem path, or an open \<open>io.BufferedIOBase\<close> object
  of the caller, known by a handle. Of such a sink the model keeps the bytes written to it
  so far and whether it was closed.
\<close>

datatype target = Path string | Buffered nat

record sink =
  written :: string
  closed :: bool

text \<open>
  The state the operations act on: the calls handed to a session so far (oldest first),
  the contents of the files, the paths of the files open for writing, the caller's sinks,
  and the identity the next created object gets.
\<close>

record world =
  sent :: "http_call list"
  files :: "string \<Rightarrow> string option"
  open_files :: "string list"
  sinks :: "nat \<Rightarrow> sink"
  next_object :: nat

text \<open>
  What the module takes from outside \<open>http.py\<close>: \<open>__version__\<close> of the package,
  \<open>sys.version\<close>, the constructor \<open>yarl.URL\<close>, whether
  \<open>re.match(REDGIFS_THUMBS_RE, s)\<close> finds a match (the pattern is a constant of
  \<open>redgifs.const\<close>), the answer of the network to a call given the calls made before
  it, and whether \<open>open(path, 'wb')\<close> succeeds.
\<close>

record env =
  lib_version :: string
  sys_version :: string
  yarl_URL :: "string \<Rightarrow> py_error + yarl_url"
  re_match_THUMBS :: "string \<Rightarrow> bool"
  session_request :: "http_call list \<Rightarrow> http_call \<Rightarrow> py_error + response"
  open_wb_ok :: "string \<Rightarrow> bool"

section \<open>HTTP\<close>

text \<open>
  The attributes \<open>__session\<close>, \<open>headers\<close>, \<open>proxy\<close>, \<open>proxy_auth\<close>, \<open>_proxy\<close> and
  \<open>_proxy_auth\<close> of an \<open>HTTP\<close> object. A \<open>ProxyAuth\<close> is the pair of its username and
  password.
\<close>

record HTTP =
  http_session :: py_object
  http_headers :: "(string \<times> string) list"
  http_proxy :: "yarl_url option"
  http_proxy_auth :: "(string \<times> string) option"
  http_u_proxy :: "(string \<times> string) list option"
  http_u_proxy_auth :: "(string \<times> string) option"

definition headers :: "env \<Rightarrow> (string \<times> string) list" where
  "headers E =
     [(''User-Agent'',
       ''redgifs (https://github.com/scrazzz/redgifs '' @ lib_version E @ '') Python/''
         @ take 3 (sys_version E))]"

text \<open>\<open>yarl.URL(proxy) if proxy else None\<close>: an empty string counts as no proxy.\<close>

definition proxy_url :: "env \<Rightarrow> string option \<Rightarrow> py_error + yarl_url option" where
  "proxy_url E proxy =
     (case proxy of
        None \<Rightarrow> Inr None
      | Some p \<Rightarrow>
          if p = [] then Inr None
          else (case yarl_URL E p of Inl e \<Rightarrow> Inl e | Inr u \<Rightarrow> Inr (Some u)))"

text \<open>\<open>if self.proxy\<close>: the proxy is set and the URL is true.\<close>

definition proxy_set :: "yarl_url option \<Rightarrow> bool" where
  "proxy_set p = (case p of None \<Rightarrow> False | Some u \<Rightarrow> url_true u)"

text \<open>
  \<open>HTTP.__init__\<close>. The type check comes first; \<open>requests.Session()\<close> creates a new
  object when no session is given.
\<close>

definition HTTP_init ::
  "env \<Rightarrow> py_object option \<Rightarrow> string option \<Rightarrow> (string \<times> string) option \<Rightarrow> world
     \<Rightarrow> (py_error + HTTP) \<times> world" where
  "HTTP_init E session proxy proxy_auth w =
     (if (case session of None \<Rightarrow> False | Some s \<Rightarrow> \<not> isinstance_requests_Session s)
      then (Inl (RuntimeError ''session is not of type requests.Session''), w)
      else
        let s = (case session of Some s \<Rightarrow> s | None \<Rightarrow> RequestsSession (next_object w));
            w1 = (case session of Some s \<Rightarrow> w
                  | None \<Rightarrow> w\<lparr>next_object := Suc (next_object w)\<rparr>)
        in case proxy_url E proxy of
             Inl e \<Rightarrow> (Inl e, w1)
           | Inr p \<Rightarrow>
               let u_proxy = (if proxy_set p
                              then map_option (\<lambda>u. [(url_scheme u, url_str u)]) p else None);
                   u_proxy_auth = (if proxy_auth \<noteq> None \<and> u_proxy \<noteq> None
                                   then proxy_auth else None)
               in (Inr \<lparr>http_session = s, http_headers = headers E, http_proxy = p,
                        http_proxy_auth = proxy_auth, http_u_proxy = u_proxy,
                        http_u_proxy_auth = u_proxy_auth\<rparr>, w1))"

text \<open>
  \<open>HTTP.request\<close>. The call it hands to the session; a keyword of \<open>kwargs\<close> that names
  an argument already given makes the call itself raise \<open>TypeError\<close>. The body is decoded
  before the status code is looked at.
\<close>

definition HTTP_request_call :: "HTTP \<Rightarrow> route \<Rightarrow> (string \<times> string) list \<Rightarrow> http_call" where
  "HTTP_request_call T r kwargs =
     \<lparr>call_session = http_session T, call_method = route_method r, call_url = route_url r,
      call_headers = http_headers T, call_proxies = http_u_proxy T,
      call_auth = http_u_proxy_auth T, call_timeout = Some 60, call_proxy = None,
      call_proxy_auth = None, call_kwargs = kwargs\<rparr>"

definition status_gate :: "response \<Rightarrow> py_error + json_value" where
  "status_gate r =
     (case json r of
        None \<Rightarrow> Inl JSONDecodeError
      | Some js \<Rightarrow> if status_code r = 200 then Inr js else Inl (HTTPException r js))"

definition HTTP_request ::
  "env \<Rightarrow> HTTP \<Rightarrow> route \<Rightarrow> (string \<times> string) list \<Rightarrow> world
     \<Rightarrow> (py_error + json_value) \<times> world" where
  "HTTP_request E T r kwargs w =
     (if keyword_clash [''method'', ''url'', ''headers'', ''proxies'', ''auth'', ''timeout''] kwargs
      then (Inl TypeError_arguments, w)
      else
        let call = HTTP_request_call T r kwargs;
            w1 = w\<lparr>sent := sent w @ [call]\<rparr>
        in case session_request E (sent w) call of
             Inl e \<Rightarrow> (Inl e, w1)
           | Inr resp \<Rightarrow> (status_gate resp, w1))"

definition HTTP_get_gif ::
  "env \<Rightarrow> HTTP \<Rightarrow> string \<Rightarrow> (string \<times> string) list \<Rightarrow> world
     \<Rightarrow> (py_error + json_value) \<times> world" where
  "HTTP_get_gif E T ident params w =
     (case Route ''GET'' ''/v2/gifs/{id}'' [(''id'', PStr ident)] of
        Inl e \<Rightarrow> (Inl e, w)
      | Inr r \<Rightarrow> HTTP_request E T r params w)"

section \<open>Writing the download\<close>

text \<open>
  \<open>fp.write(data)\<close> on the caller's sink: the bytes are added to what the sink received,
  the sink stays as open as it was; a closed sink raises \<open>ValueError\<close>.
\<close>

definition sink_write :: "nat \<Rightarrow> string \<Rightarrow> world \<Rightarrow> (py_error + int) \<times> world" where
  "sink_write h data w =
     (if closed (sinks w h) then (Inl ValueError, w)
      else (Inr (int (length data)),
            w\<lparr>sinks := (sinks w)(h := (sinks w h)\<lparr>written := written (sinks w h) @ data\<rparr>)\<rparr>))"

text \<open>
  \<open>with open(fp, 'wb') as f: return f.write(data)\<close>, step by step: opening truncates
  the file (or creates it empty), writing appends to what the open file holds, leaving the
  \<open>with\<close> block closes it.
\<close>

definition file_open_wb :: "string \<Rightarrow> world \<Rightarrow> world" where
  "file_open_wb p w = w\<lparr>files := (files w)(p \<mapsto> []), open_files := p # open_files w\<rparr>"

definition file_write :: "string \<Rightarrow> string \<Rightarrow> world \<Rightarrow> int \<times> world" where
  "file_write p data w =
     (int (length data),
      w\<lparr>files := (files w)(p \<mapsto> (case files w p of None \<Rightarrow> [] | Some old \<Rightarrow> old) @ data)\<rparr>)"

definition file_close :: "string \<Rightarrow> world \<Rightarrow> world" where
  "file_close p w = w\<lparr>open_files := remove1 p (open_files w)\<rparr>"

definition write_target :: "env \<Rightarrow> target \<Rightarrow> string \<Rightarrow> world \<Rightarrow> (py_error + int) \<times> world" where
  "write_target E fp data w =
     (case fp of
        Buffered h \<Rightarrow> sink_write h data w
      | Path p \<Rightarrow>
          if open_wb_ok E p then
            (let w1 = file_open_wb p w;
                 (n, w2) = file_write p data w1
             in (Inr n, file_close p w2))
          else (Inl OSError, w))"

section \<open>HTTP.download\<close>

text \<open>
  The inner function \<open>dl\<close>: a plain \<open>session.get(url, headers=self.headers)\<close>, whose
  body is written to the target whatever the status code.
\<close>

definition get_call :: "py_object \<Rightarrow> (string \<times> string) list \<Rightarrow> string \<Rightarrow> http_call" where
  "get_call s hs url =
     \<lparr>call_session = s, call_method = ''GET'', call_url = url, call_headers = hs,
      call_proxies = None, call_auth = None, call_timeout = None, call_proxy = None,
      call_proxy_auth = None, call_kwargs = []\<rparr>"

definition dl ::
  "env \<Rightarrow> py_object \<Rightarrow> (string \<times> string) list \<Rightarrow> target \<Rightarrow> string \<Rightarrow> world
     \<Rightarrow> (py_error + int) \<times> world" where
  "dl E s hs fp url w =
     (let call = get_call s hs url;
          w1 = w\<lparr>sent := sent w @ [call]\<rparr>
      in case session_request E (sent w) call of
           Inl e \<Rightarrow> (Inl e, w1)
         | Inr r \<Rightarrow> write_target E fp (content r) w1)"

text \<open>
  Python values that \<open>get_gif\<close> can return: a decoded JSON document, or the coroutine
  object that calling an \<open>async def\<close> function gives (here a call of
  \<open>AsyncHttp.request\<close> with its arguments, not started). \<open>v[k]\<close> with a string key looks
  the key up in a JSON object and raises \<open>KeyError\<close> when it is absent; every other value
  raises \<open>TypeError\<close>, with the message CPython 3.11 gives for its type.
\<close>

definition not_subscriptable :: "string \<Rightarrow> string" where
  "not_subscriptable type_name =
     [CHR 0x27] @ type_name @ [CHR 0x27] @ '' object is not subscriptable''"

datatype py_value = Json json_value | Coroutine route "(string \<times> string) list"

fun subscript :: "py_value \<Rightarrow> string \<Rightarrow> py_error + py_value" where
  "subscript (Json (JObj items)) k =
     (case map_of items k of None \<Rightarrow> Inl (KeyError k) | Some v \<Rightarrow> Inr (Json v))"
| "subscript (Json JNull) k = Inl (TypeError (not_subscriptable ''NoneType''))"
| "subscript (Json (JBool b)) k = Inl (TypeError (not_subscriptable ''bool''))"
| "subscript (Json (JNum i)) k = Inl (TypeError (not_subscriptable ''int''))"
| "subscript (Json (JStr s)) k =
     Inl (TypeError (''string indices must be integers, not '' @ [CHR 0x27] @ ''str'' @ [CHR 0x27]))"
| "subscript (Json (JArr vs)) k =
     Inl (TypeError ''list indices must be integers or slices, not str'')"
| "subscript (Coroutine r kwargs) k = Inl (TypeError (not_subscriptable ''coroutine''))"

fun subscripts :: "py_value \<Rightarrow> string list \<Rightarrow> py_error + py_value" where
  "subscripts v [] = Inr v"
| "subscripts v (k # ks) =
     (case subscript v k of Inl e \<Rightarrow> Inl e | Inr v' \<Rightarrow> subscripts v' ks)"

text \<open>
  The value found at \<open>['gif']['urls']['hd']\<close> is passed to \<open>dl\<close> as the URL. The
  session takes a string; for any other value it raises before anything is sent
  (\<open>ConnectionError\<close> stands for that exception too).
\<close>

definition dl_value ::
  "env \<Rightarrow> py_object \<Rightarrow> (string \<times> string) list \<Rightarrow> target \<Rightarrow> py_value \<Rightarrow> world
     \<Rightarrow> (py_error + int) \<times> world" where
  "dl_value E s hs fp v w =
     (case v of
        Json (JStr url) \<Rightarrow> dl E s hs fp url w
      | _ \<Rightarrow> (Inl ConnectionError, w))"

text \<open>\<open>str(yarl_url.host)\<close>; the host may be \<open>None\<close>.\<close>

definition str_host :: "yarl_url \<Rightarrow> string" where
  "str_host u = (case url_host u of None \<Rightarrow> ''None'' | Some h \<Rightarrow> h)"

definition invalid_url_message :: "string \<Rightarrow> string" where
  "invalid_url_message str_url = [CHR 0x22] @ str_url @ [CHR 0x22] @ '' is an invalid RedGifs URL.''"

definition HTTP_download ::
  "env \<Rightarrow> HTTP \<Rightarrow> string \<Rightarrow> target \<Rightarrow> world \<Rightarrow> (py_error + int) \<times> world" where
  "HTTP_download E T url fp w =
     (case yarl_URL E url of
        Inl e \<Rightarrow> (Inl e, w)
      | Inr yarl_url \<Rightarrow>
          let str_url = url_str yarl_url in
          if str_contains ''thumbs'' (str_host yarl_url) \<and> str_contains ''redgifs'' (str_host yarl_url)
          then
            (if re_match_THUMBS E str_url
             then dl E (http_session T) (http_headers T) fp str_url w
             else (Inl (TypeError (invalid_url_message str_url)), w))
          else if str_contains ''watch'' (url_path yarl_url) then
            (let ident = strip ''/watch/'' (url_path yarl_url) in
             case HTTP_get_gif E T ident [] w of
               (Inl e, w1) \<Rightarrow> (Inl e, w1)
             | (Inr js, w1) \<Rightarrow>
                 (case subscripts (Json js) [''gif'', ''urls'', ''hd''] of
                    Inl e \<Rightarrow> (Inl e, w1)
                  | Inr hd_url \<Rightarrow> dl_value E (http_session T) (http_headers T) fp hd_url w1))
          else (Inr 1, w))"

section \<open>AsyncHttp\<close>

text \<open>
  \<open>AsyncHttp\<close> derives from \<open>HTTP\<close> and defines \<open>__init__\<close>, \<open>request\<close>, \<open>download\<close>
  and \<open>close\<close> itself; its \<open>__init__\<close> does not call the one of \<open>HTTP\<close>, so the object
  has no \<open>_proxy\<close>. \<open>aiohttp.BasicAuth\<close> refuses a login that holds a colon.
\<close>

record AsyncHttp =
  async_session :: py_object
  async_headers :: "(string \<times> string) list"
  async_proxy :: "yarl_url option"
  async_proxy_auth :: "(string \<times> string) option"
  async_u_proxy_auth :: "(string \<times> string) option"

definition BasicAuth :: "string \<times> string \<Rightarrow> py_error + string \<times> string" where
  "BasicAuth a = (if CHR '':'' \<in> set (fst a) then Inl ValueError else Inr a)"

text \<open>
  \<open>aiohttp.BasicAuth(username, password) if self.proxy_auth and self.proxy else None\<close>.
\<close>

definition proxy_basic_auth ::
  "yarl_url option \<Rightarrow> (string \<times> string) option \<Rightarrow> py_error + (string \<times> string) option" where
  "proxy_basic_auth p proxy_auth =
     (case proxy_auth of
        None \<Rightarrow> Inr None
      | Some a \<Rightarrow>
          if proxy_set p
          then (case BasicAuth a of Inl e \<Rightarrow> Inl e | Inr b \<Rightarrow> Inr (Some b))
          else Inr None)"

definition AsyncHttp_init ::
  "env \<Rightarrow> py_object option \<Rightarrow> string option \<Rightarrow> (string \<times> string) option \<Rightarrow> world
     \<Rightarrow> (py_error + AsyncHttp) \<times> world" where
  "AsyncHttp_init E session proxy proxy_auth w =
     (if (case session of None \<Rightarrow> False | Some s \<Rightarrow> \<not> isinstance_aiohttp_ClientSession s)
      then (Inl (RuntimeError ''session is not of type aiohttp.ClientSession''), w)
      else
        let s = (case session of Some s \<Rightarrow> s | None \<Rightarrow> AiohttpSession (next_object w));
            w1 = (case session of Some s \<Rightarrow> w
                  | None \<Rightarrow> w\<lparr>next_object := Suc (next_object w)\<rparr>)
        in case proxy_url E proxy of
             Inl e \<Rightarrow> (Inl e, w1)
           | Inr p \<Rightarrow>
               (case proxy_basic_auth p proxy_auth of
                  Inl e \<Rightarrow> (Inl e, w1)
                | Inr u_proxy_auth \<Rightarrow>
                    (Inr \<lparr>async_session = s, async_headers = headers E, async_proxy = p,
                          async_proxy_auth = proxy_auth,
                          async_u_proxy_auth = u_proxy_auth\<rparr>, w1)))"

text \<open>
  \<open>AsyncHttp.request\<close> is a coroutine function. \<open>AsyncHttp_request\<close> is what its body
  does once the coroutine is awaited; calling it without \<open>await\<close> only makes the
  \<open>Coroutine\<close> value.
\<close>

definition AsyncHttp_request_call ::
  "AsyncHttp \<Rightarrow> route \<Rightarrow> (string \<times> string) list \<Rightarrow> http_call" where
  "AsyncHttp_request_call T r kwargs =
     \<lparr>call_session = async_session T, call_method = route_method r, call_url = route_url r,
      call_headers = async_headers T, call_proxies = None, call_auth = None,
      call_timeout = None,
      call_proxy = (if proxy_set (async_proxy T) then map_option url_str (async_proxy T)
                    else None),
      call_proxy_auth = async_u_proxy_auth T, call_kwargs = kwargs\<rparr>"

definition AsyncHttp_request ::
  "env \<Rightarrow> AsyncHttp \<Rightarrow> route \<Rightarrow> (string \<times> string) list \<Rightarrow> world
     \<Rightarrow> (py_error + json_value) \<times> world" where
  "AsyncHttp_request E T r kwargs w =
     (if keyword_clash [''method'', ''url'', ''headers'', ''proxy'', ''proxy_auth''] kwargs
      then (Inl TypeError_arguments, w)
      else
        let call = AsyncHttp_request_call T r kwargs;
            w1 = w\<lparr>sent := sent w @ [call]\<rparr>
        in case session_request E (sent w) call of
             Inl e \<Rightarrow> (Inl e, w1)
           | Inr resp \<Rightarrow> (status_gate resp, w1))"

text \<open>
  \<open>get_gif\<close> is inherited from \<open>HTTP\<close>: it builds the route and returns
  \<open>self.request(r, **params)\<close>, which on an \<open>AsyncHttp\<close> is a coroutine object. Nothing
  is sent.
\<close>

definition AsyncHttp_get_gif ::
  "AsyncHttp \<Rightarrow> string \<Rightarrow> (string \<times> string) list \<Rightarrow> py_error + py_value" where
  "AsyncHttp_get_gif T ident params =
     (case Route ''GET'' ''/v2/gifs/{id}'' [(''id'', PStr ident)] of
        Inl e \<Rightarrow> Inl e
      | Inr r \<Rightarrow> Inr (Coroutine r params))"

text \<open>
  \<open>AsyncHttp.download\<close>: the text of \<open>HTTP.download\<close> with \<open>await\<close> before the calls
  of \<open>dl\<close>, and none before \<open>self.get_gif(id)\<close>.
\<close>

definition AsyncHttp_download ::
  "env \<Rightarrow> AsyncHttp \<Rightarrow> string \<Rightarrow> target \<Rightarrow> world \<Rightarrow> (py_error + int) \<times> world" where
  "AsyncHttp_download E T url fp w =
     (case yarl_URL E url of
        Inl e \<Rightarrow> (Inl e, w)
      | Inr yarl_url \<Rightarrow>
          let str_url = url_str yarl_url in
          if str_contains ''thumbs'' (str_host yarl_url) \<and> str_contains ''redgifs'' (str_host yarl_url)
          then
            (if re_match_THUMBS E str_url
             then dl E (async_session T) (async_headers T) fp str_url w
             else (Inl (TypeError (invalid_url_message str_url)), w))
          else if str_contains ''watch'' (url_path yarl_url) then
            (let ident = strip ''/watch/'' (url_path yarl_url) in
             case AsyncHttp_get_gif T ident [] of
               Inl e \<Rightarrow> (Inl e, w)
             | Inr v \<Rightarrow>
                 (case subscripts v [''gif'', ''urls'', ''hd''] of
                    Inl e \<Rightarrow> (Inl e, w)
                  | Inr hd_url \<Rightarrow> dl_value E (async_session T) (async_headers T) fp hd_url w))
          else (Inr 1, w))"

section \<open>Path templates as the specification reads them\<close>

text \<open>
  The specification speaks of a path template with \<open>{name}\<close> placeholders. The
  definitions of this section follow its words, to be compared with \<open>Route\<close>: a
  template is a sequence of pieces of text and of placeholders; its text form writes a
  placeholder \<open>n\<close> as \<open>{n}\<close>.
\<close>

datatype segment = Text string | Placeholder string

fun template_text :: "segment list \<Rightarrow> string" where
  "template_text [] = []"
| "template_text (Text t # segs) = t @ template_text segs"
| "template_text (Placeholder n # segs) = CHR ''{'' # n @ CHR ''}'' # template_text segs"

fun placeholders :: "segment list \<Rightarrow> string list" where
  "placeholders [] = []"
| "placeholders (Text t # segs) = placeholders segs"
| "placeholders (Placeholder n # segs) = n # placeholders segs"

text \<open>
  A template is valid when no piece of text holds a brace and every placeholder is a plain
  name: ASCII, not empty, not a number, and free of the characters that start a
  conversion, a format specification, an attribute or an index in Python's format syntax.
\<close>

definition brace_free :: "string \<Rightarrow> bool" where
  "brace_free s = (CHR ''{'' \<notin> set s \<and> CHR ''}'' \<notin> set s)"

definition placeholder_name :: "string \<Rightarrow> bool" where
  "placeholder_name n =
     (\<not> positional n \<and> list_all (\<lambda>c. c \<notin> set ''{}!:.['' \<and> of_char c < (128::nat)) n)"

fun valid_template :: "segment list \<Rightarrow> bool" where
  "valid_template [] = True"
| "valid_template (Text t # segs) = (brace_free t \<and> valid_template segs)"
| "valid_template (Placeholder n # segs) = (placeholder_name n \<and> valid_template segs)"

text \<open>
  The values the specification speaks of: text, booleans and integers (of at most 4300
  digits, which every interpreter converts to text). The text such a value is replaced
  by: percent-encoded when textual, the literal text of an integer or a boolean
  otherwise; and the template with every placeholder replaced.
\<close>

fun spec_value :: "param \<Rightarrow> bool" where
  "spec_value (PInt i) = (length (str_nat (nat \<bar>i\<bar>)) \<le> int_max_str_digits)"
| "spec_value v = True"

fun spec_value_text :: "param \<Rightarrow> string" where
  "spec_value_text (PStr s) = quote s"
| "spec_value_text (PInt i) = str_int i"
| "spec_value_text (PBool b) = (if b then ''True'' else ''False'')"

fun spec_substitute :: "(string \<times> param) list \<Rightarrow> segment list \<Rightarrow> string" where
  "spec_substitute ps [] = []"
| "spec_substitute ps (Text t # segs) = t @ spec_substitute ps segs"
| "spec_substitute ps (Placeholder n # segs) =
     (case map_of ps n of None \<Rightarrow> [] | Some v \<Rightarrow> spec_value_text v) @ spec_substitute ps segs"




section \<open>An example environment\<close>

text \<open>
  A small concrete environment, on which the theorems are run: the URLs of the
  specification's scenarios as \<open>yarl.URL\<close> reads them, a pattern that accepts the
  asset URL of scenario 2, a network that answers the metadata lookups and the asset
  fetches, a file that exists, and sinks that are open.
\<close>

definition example_url :: "string \<Rightarrow> string \<Rightarrow> yarl_url" where
  "example_url host path =
     \<lparr>url_scheme = ''https'', url_host = Some host, url_path = path,
      url_str = ''https://'' @ host @ path, url_true = True\<rparr>"

definition example_URL :: "string \<Rightarrow> py_error + yarl_url" where
  "example_URL s =
     (if s = ''https://www.redgifs.com/watch/somename''
        then Inr (example_url ''www.redgifs.com'' ''/watch/somename'')
      else if s = ''https://www.redgifs.com/watch/agileblackcat''
        then Inr (example_url ''www.redgifs.com'' ''/watch/agileblackcat'')
      else if s = ''https://thumbs44.redgifs.com/SomeAsset-mobile.mp4''
        then Inr (example_url ''thumbs44.redgifs.com'' ''/SomeAsset-mobile.mp4'')
      else if s = ''https://thumbs44.redgifs.com/''
        then Inr (example_url ''thumbs44.redgifs.com'' ''/'')
      else if s = ''https://example.com/unrelated''
        then Inr (example_url ''example.com'' ''/unrelated'')
      else if s = ''https://example.com/stopwatches''
        then Inr (example_url ''example.com'' ''/stopwatches'')
      else Inl ValueError)"

definition example_gif :: "string \<Rightarrow> json_value" where
  "example_gif u =
     JObj [(''gif'', JObj [(''id'', JStr ''somename''), (''urls'', JObj [(''hd'', JStr u)])])]"

definition example_session_request :: "http_call list \<Rightarrow> http_call \<Rightarrow> py_error + response" where
  "example_session_request before c =
     (if call_url c = ''https://api.redgifs.com/v2/gifs/somename''
        then Inr \<lparr>status_code = 200, content = ''(gif somename)'',
                  json = Some (example_gif ''https://thumbs44.redgifs.com/SomeName.mp4'')\<rparr>
      else if call_url c = ''https://api.redgifs.com/v2/gifs/missing''
        then Inr \<lparr>status_code = 404, content = ''(error)'',
                  json = Some (JObj [(''error'', JStr ''not found'')])\<rparr>
      else if call_url c = ''https://api.redgifs.com/v2/gifs/gateway''
        then Inr \<lparr>status_code = 502, content = ''<html>Bad Gateway</html>'', json = None\<rparr>
      else if call_url c = ''https://thumbs44.redgifs.com/SomeName.mp4''
        then Inr \<lparr>status_code = 200, content = ''HD-BYTES'', json = None\<rparr>
      else if call_url c = ''https://thumbs44.redgifs.com/SomeAsset-mobile.mp4''
        then Inr \<lparr>status_code = 200, content = ''MOBILE-BYTES'', json = None\<rparr>
      else Inl ConnectionError)"

definition example_env :: env where
  "example_env =
     \<lparr>lib_version = ''1.0.0'', sys_version = ''3.10.4 (main)'', yarl_URL = example_URL,
      re_match_THUMBS = (\<lambda>s. s = ''https://thumbs44.redgifs.com/SomeAsset-mobile.mp4''),
      session_request = example_session_request,
      open_wb_ok = (\<lambda>p. p = ''out.mp4'')\<rparr>"

definition example_world :: world where
  "example_world =
     \<lparr>sent = [], files = [''out.mp4'' \<mapsto> ''previous contents''], open_files = [],
      sinks = (\<lambda>h. \<lparr>written = ''earlier-'', closed = False\<rparr>), next_object = 7\<rparr>"

definition example_HTTP :: HTTP where
  "example_HTTP =
     \<lparr>http_session = RequestsSession 0, http_headers = headers example_env,
      http_proxy = None, http_proxy_auth = None, http_u_proxy = None,
      http_u_proxy_auth = None\<rparr>"

definition example_AsyncHttp :: AsyncHttp where
  "example_AsyncHttp =
     \<lparr>async_session = AiohttpSession 0, async_headers = headers example_env,
      async_proxy = None, async_proxy_auth = None, async_u_proxy_auth = None\<rparr>"

definition example_route :: "string \<Rightarrow> route" where
  "example_route ident =
     \<lparr>route_method = ''GET'', route_path = ''/v2/gifs/{id}'',
      route_url = ''https://api.redgifs.com/v2/gifs/'' @ ident\<rparr>"

section \<open>Calls without credentials\<close>

text \<open>
  A call carries no credentials when it is given no \<open>auth\<close>, no \<open>proxy_auth\<close>, no proxy
  and no header but the \<open>User-Agent\<close>.
\<close>

definition credential_free :: "http_call \<Rightarrow> bool" where
  "credential_free c =
     (call_auth c = None \<and> call_proxy_auth c = None \<and> call_proxies c = None
      \<and> call_proxy c = None \<and> map fst (call_headers c) = [''User-Agent''])"

text \<open>
  The calls an operation hands to the session, read off the states before and after it:
  the later log is the earlier one followed by calls that all satisfy \<open>P\<close>.
\<close>

definition calls_added :: "(http_call \<Rightarrow> bool) \<Rightarrow> world \<Rightarrow> world \<Rightarrow> bool" where
  "calls_added P w w' = (\<exists>cs. sent w' = sent w @ cs \<and> list_all P cs)"

section \<open>A target that can be written\<close>

text \<open>
  The target accepts the write: the path can be opened for writing, or the caller's sink
  is not closed.
\<close>

definition target_ready :: "env \<Rightarrow> target \<Rightarrow> world \<Rightarrow> bool" where
  "target_ready E fp w =
     (case fp of Path p \<Rightarrow> open_wb_ok E p | Buffered h \<Rightarrow> \<not> closed (sinks w h))"

section \<open>The metadata lookup of a watch page\<close>

text \<open>
  The route \<open>get_gif\<close> resolves for an identifier, and the call \<open>HTTP.request\<close> makes
  for it.
\<close>

definition gif_route :: "string \<Rightarrow> route" where
  "gif_route ident =
     \<lparr>route_method = ''GET'', route_path = ''/v2/gifs/{id}'',
      route_url = BASE @ ''/v2/gifs/'' @ quote ident\<rparr>"

section \<open>Route resolution: the scanner on valid templates\<close>

lemma format_scan_char:
  "c \<noteq> CHR ''{'' \<Longrightarrow> c \<noteq> CHR ''}'' \<Longrightarrow>
   format_scan m Literal (c # xs) = prepend [c] (format_scan m Literal xs)"
  by (cases xs) (simp_all add: prepend_def)

lemma prepend_prepend: "prepend s (prepend t r) = prepend (s @ t) r"
  by (simp add: prepend_def split: sum.splits)

lemma prepend_Nil: "prepend [] r = r"
  by (simp add: prepend_def split: sum.splits)

lemma format_scan_text:
  "brace_free t \<Longrightarrow> format_scan m Literal (t @ rest) = prepend t (format_scan m Literal rest)"
proof (induction t)
  case Nil
  show ?case by (simp add: prepend_Nil)
next
  case (Cons c t)
  then have c: "c \<noteq> CHR ''{''" "c \<noteq> CHR ''}''" and t: "brace_free t"
    by (auto simp: brace_free_def)
  show ?case
    using Cons.IH [OF t] by (simp add: format_scan_char [OF c] prepend_prepend)
qed

lemma format_scan_name:
  "list_all (\<lambda>c. c \<notin> set ''{}!:.['' \<and> of_char c < (128::nat)) n \<Longrightarrow>
   format_scan m (Field acc) (n @ CHR ''}'' # rest) =
     (if positional (rev acc @ n) then Inl ValueError
      else case m (rev acc @ n) of
             None \<Rightarrow> Inl (KeyError (rev acc @ n))
           | Some v \<Rightarrow>
               (case format_value v of
                  Inl e \<Rightarrow> Inl e
                | Inr t \<Rightarrow> prepend t (format_scan m Literal rest)))"
  by (induction n arbitrary: acc) (simp_all add: not_le split: option.split)

lemma format_scan_placeholder:
  assumes "placeholder_name n"
  shows "format_scan m Literal (CHR ''{'' # n @ CHR ''}'' # rest) =
           (case m n of
              None \<Rightarrow> Inl (KeyError n)
            | Some v \<Rightarrow>
                (case format_value v of
                   Inl e \<Rightarrow> Inl e
                 | Inr t \<Rightarrow> prepend t (format_scan m Literal rest)))"
proof -
  from assms have np: "\<not> positional n"
    and ok: "list_all (\<lambda>c. c \<notin> set ''{}!:.['' \<and> of_char c < (128::nat)) n"
    by (simp_all add: placeholder_name_def)
  from np obtain d ds where n: "n = d # ds"
    by (cases n) (simp_all add: positional_def)
  with ok have d: "d \<noteq> CHR ''{''" by simp
  have "format_scan m Literal (CHR ''{'' # n @ CHR ''}'' # rest) =
        format_scan m (Field []) (n @ CHR ''}'' # rest)"
    using d by (simp add: n)
  also have "\<dots> = (case m n of
              None \<Rightarrow> Inl (KeyError n)
            | Some v \<Rightarrow>
                (case format_value v of
                   Inl e \<Rightarrow> Inl e
                 | Inr t \<Rightarrow> prepend t (format_scan m Literal rest)))"
    using format_scan_name [OF ok, of m "[]" rest] np by (simp split: option.split)
  finally show ?thesis .
qed

lemma format_value_quoted:
  "spec_value v \<Longrightarrow> format_value (quote_if_str v) = Inr (spec_value_text v)"
  by (cases v) simp_all

lemma map_of_quoted_parameters:
  "map_of (quoted_parameters ps) k = map_option quote_if_str (map_of ps k)"
  by (induction ps) (auto simp: quoted_parameters_def)

lemma format_scan_template:
  assumes vals: "list_all spec_value (map snd ps)"
      and "valid_template segs" and "set (placeholders segs) \<subseteq> fst ` set ps"
  shows "format_scan (map_of (quoted_parameters ps)) Literal (template_text segs) =
           Inr (spec_substitute ps segs)"
  using assms(2,3)
proof (induction segs rule: template_text.induct)
  case 1
  show ?case by simp
next
  case (2 t segs)
  then show ?case by (simp add: format_scan_text prepend_def)
next
  case (3 n segs)
  from "3.prems" have n: "placeholder_name n" and "n \<in> fst ` set ps" by simp_all
  then obtain v where v: "map_of ps n = Some v"
    by (metis domD dom_map_of_conv_image_fst)
  then have "(n, v) \<in> set ps" by (rule map_of_SomeD)
  then have "v \<in> set (map snd ps)" by force
  with vals have ok: "spec_value v" by (simp only: list_all_iff)
  from 3 have IH: "format_scan (map_of (quoted_parameters ps)) Literal (template_text segs) =
           Inr (spec_substitute ps segs)" by simp
  have look: "map_of (quoted_parameters ps) n = Some (quote_if_str v)"
    by (simp add: map_of_quoted_parameters v)
  show ?case
    by (simp add: format_scan_placeholder [OF n] look IH prepend_def
        format_value_quoted [OF ok] v)
qed

lemma format_map_template:
  assumes "list_all spec_value (map snd ps)"
      and "valid_template segs" and "set (placeholders segs) \<subseteq> fst ` set ps"
  shows "format_map (BASE @ template_text segs) (quoted_parameters ps) =
           Inr (BASE @ spec_substitute ps segs)"
proof -
  have "brace_free BASE" by (simp add: brace_free_def BASE_def)
  then show ?thesis
    by (simp add: format_map_def format_scan_text format_scan_template [OF assms] prepend_def)
qed

lemma spec_substitute_no_placeholders:
  "placeholders segs = [] \<Longrightarrow> spec_substitute ps segs = template_text segs"
  by (induction segs rule: template_text.induct) simp_all

lemma keyword_clash_Nil: "\<not> keyword_clash given []"
  by (simp add: keyword_clash_def)

lemma keyword_clash_iff:
  "keyword_clash given kwargs = (\<exists>k \<in> fst ` set kwargs. k \<in> set given)"
  by (auto simp: keyword_clash_def list_ex_iff)

lemma Route_template:
  assumes "valid_template segs" and "set (placeholders segs) \<subseteq> fst ` set ps"
      and "\<not> keyword_clash [''self'', ''method'', ''path''] ps"
      and "list_all spec_value (map snd ps)"
  shows "Route method (template_text segs) ps =
           Inr \<lparr>route_method = method, route_path = template_text segs,
                route_url = BASE @ spec_substitute ps segs\<rparr>"
proof (cases "ps = []")
  case True
  with assms(2) have "placeholders segs = []" by simp
  then show ?thesis
    using True by (simp add: Route_def spec_substitute_no_placeholders keyword_clash_Nil)
next
  case False
  then show ?thesis
    using assms(3) by (simp add: Route_def format_map_template [OF assms(4,1,2)])
qed


















lemma Route_same_mapping:
  assumes "map_of ps = map_of ps'"
  shows "Route m p ps = Route m p ps'"
proof -
  have e: "(ps = []) = (ps' = [])"
    using assms map_of_eq_empty_iff [of ps] map_of_eq_empty_iff [of ps'] by auto
  have "fst ` set ps = fst ` set ps'"
    using assms dom_map_of_conv_image_fst [of ps] dom_map_of_conv_image_fst [of ps'] by simp
  then have k: "keyword_clash [''self'', ''method'', ''path''] ps =
                keyword_clash [''self'', ''method'', ''path''] ps'"
    by (simp only: keyword_clash_iff)
  have "map_of (quoted_parameters ps) = map_of (quoted_parameters ps')"
    using assms by (auto simp: map_of_quoted_parameters fun_eq_iff)
  then show ?thesis
    using e k by (simp add: Route_def format_map_def Let_def)
qed

section \<open>Percent-encoding: what \<open>quote\<close> does to a value\<close>








section \<open>Route resolution: the claims\<close>







text \<open>
  Claim C9. Route resolution is a function of its inputs alone: two resolutions with the
  same method, path and parameter mapping give the same route (the order in which the
  keyword arguments were written does not matter), and the URL does not even depend on
  the method. In particular resolving twice with identical inputs gives identical URLs.
\<close>

theorem Route_determined_by_inputs:
  assumes "map_of parameters = map_of parameters'"
  shows "Route method path parameters = Route method path parameters'
         \<and> map_sum id route_url (Route method path parameters) =
             map_sum id route_url (Route method' path parameters')"
proof -
  have 1: "Route method path parameters = Route method path parameters'"
    using assms by (rule Route_same_mapping)
  have "map_sum id route_url (Route method path parameters') =
        map_sum id route_url (Route method' path parameters')"
    by (simp add: Route_def Let_def split: sum.split)
  with 1 show ?thesis by simp
qed

theorem Route_determined_by_inputs_witness:
  "map_of [(''count'', PInt 5), (''page'', PInt 1)] =
     map_of [(''page'', PInt 1), (''count'', PInt 5)]
   \<and> Route ''GET'' ''/v2/gifs/search?count={count}&page={page}''
         [(''count'', PInt 5), (''page'', PInt 1)] =
       Route ''GET'' ''/v2/gifs/search?count={count}&page={page}''
         [(''page'', PInt 1), (''count'', PInt 5)]
   \<and> Route ''GET'' ''/v2/gifs/search?count={count}&page={page}''
         [(''page'', PInt 1), (''count'', PInt 5)] =
       Inr \<lparr>route_method = ''GET'', route_path = ''/v2/gifs/search?count={count}&page={page}'',
            route_url = ''https://api.redgifs.com/v2/gifs/search?count=5&page=1''\<rparr>"
proof -
  have m: "map_of [(''count'', PInt 5), (''page'', PInt 1)] =
     map_of [(''page'', PInt 1), (''count'', PInt 5)]"
    by (rule ext) simp
  have e: "Route ''GET'' ''/v2/gifs/search?count={count}&page={page}''
         [(''page'', PInt 1), (''count'', PInt 5)] =
       Inr \<lparr>route_method = ''GET'', route_path = ''/v2/gifs/search?count={count}&page={page}'',
            route_url = ''https://api.redgifs.com/v2/gifs/search?count=5&page=1''\<rparr>"
    by (simp add: Route_def keyword_clash_def BASE_def format_map_def quoted_parameters_def
        prepend_def positional_def str_int_def int_max_str_digits_def)
  show ?thesis
    using Route_determined_by_inputs [OF m, of "''GET''"
        "''/v2/gifs/search?count={count}&page={page}''" "''GET''"] m e
    by simp
qed

section \<open>The request pipeline\<close>


lemma HTTP_request_response:
  assumes "\<not> keyword_clash [''method'', ''url'', ''headers'', ''proxies'', ''auth'', ''timeout''] kwargs"
      and "session_request E (sent w) (HTTP_request_call T r kwargs) = Inr resp"
  shows "HTTP_request E T r kwargs w =
           (status_gate resp, w\<lparr>sent := sent w @ [HTTP_request_call T r kwargs]\<rparr>)"
  using assms by (simp add: HTTP_request_def Let_def)






section \<open>Construction of a transport\<close>

lemma HTTP_init_wrong_session:
  "\<not> isinstance_requests_Session s \<Longrightarrow>
   HTTP_init E (Some s) proxy proxy_auth w =
     (Inl (RuntimeError ''session is not of type requests.Session''), w)"
  by (simp add: HTTP_init_def)

lemma AsyncHttp_init_wrong_session:
  "\<not> isinstance_aiohttp_ClientSession s \<Longrightarrow>
   AsyncHttp_init E (Some s) proxy proxy_auth w =
     (Inl (RuntimeError ''session is not of type aiohttp.ClientSession''), w)"
  by (simp add: AsyncHttp_init_def)

lemma HTTP_init_sent: "sent (snd (HTTP_init E session proxy proxy_auth w)) = sent w"
  by (simp add: HTTP_init_def Let_def split: option.split sum.split)

lemma AsyncHttp_init_sent: "sent (snd (AsyncHttp_init E session proxy proxy_auth w)) = sent w"
  by (simp add: AsyncHttp_init_def Let_def split: option.split sum.split)

lemma HTTP_init_new_session:
  assumes "proxy_url E proxy = Inr p"
  shows "\<exists>T. HTTP_init E None proxy proxy_auth w =
               (Inr T, w\<lparr>next_object := Suc (next_object w)\<rparr>)
             \<and> http_session T = RequestsSession (next_object w)"
  using assms by (simp add: HTTP_init_def Let_def)

lemma AsyncHttp_init_new_session:
  assumes "proxy_url E proxy = Inr p" and "proxy_basic_auth p proxy_auth = Inr a"
  shows "\<exists>T. AsyncHttp_init E None proxy proxy_auth w =
               (Inr T, w\<lparr>next_object := Suc (next_object w)\<rparr>)
             \<and> async_session T = AiohttpSession (next_object w)"
  using assms by (simp add: AsyncHttp_init_def Let_def)

text \<open>
  Claim C7. A session object that is not of the transport's own session class makes the
  constructor raise \<open>RuntimeError\<close> at once: nothing else happens, no session is created
  and nothing is sent. With no session given, the constructor creates a new session
  object, which the transport then holds; it succeeds whenever the proxy arguments are
  accepted. No constructor sends anything.
\<close>

theorem session_checked_at_construction:
  "(\<not> isinstance_requests_Session s \<longrightarrow>
      HTTP_init E (Some s) proxy proxy_auth w =
        (Inl (RuntimeError ''session is not of type requests.Session''), w))
   \<and> (\<not> isinstance_aiohttp_ClientSession s \<longrightarrow>
      AsyncHttp_init E (Some s) proxy proxy_auth w =
        (Inl (RuntimeError ''session is not of type aiohttp.ClientSession''), w))
   \<and> (proxy_url E proxy = Inr p \<longrightarrow>
      (\<exists>T. HTTP_init E None proxy proxy_auth w =
             (Inr T, w\<lparr>next_object := Suc (next_object w)\<rparr>)
           \<and> http_session T = RequestsSession (next_object w)))
   \<and> (proxy_url E proxy = Inr p \<and> proxy_basic_auth p proxy_auth = Inr a \<longrightarrow>
      (\<exists>T. AsyncHttp_init E None proxy proxy_auth w =
             (Inr T, w\<lparr>next_object := Suc (next_object w)\<rparr>)
           \<and> async_session T = AiohttpSession (next_object w)))
   \<and> sent (snd (HTTP_init E session proxy proxy_auth w)) = sent w
   \<and> sent (snd (AsyncHttp_init E session proxy proxy_auth w)) = sent w"
  using HTTP_init_wrong_session [of s E proxy proxy_auth w]
    AsyncHttp_init_wrong_session [of s E proxy proxy_auth w]
    HTTP_init_new_session [of E proxy p proxy_auth w]
    AsyncHttp_init_new_session [of E proxy p proxy_auth a w]
    HTTP_init_sent [of E session proxy proxy_auth w]
    AsyncHttp_init_sent [of E session proxy proxy_auth w]
  by blast

theorem session_checked_at_construction_witness:
  "\<not> isinstance_requests_Session (OtherObject 4)
   \<and> HTTP_init example_env (Some (OtherObject 4)) None None example_world =
       (Inl (RuntimeError ''session is not of type requests.Session''), example_world)
   \<and> \<not> isinstance_aiohttp_ClientSession (OtherObject 4)
   \<and> AsyncHttp_init example_env (Some (OtherObject 4)) None None example_world =
       (Inl (RuntimeError ''session is not of type aiohttp.ClientSession''), example_world)
   \<and> proxy_url example_env None = Inr None
   \<and> proxy_basic_auth None None = Inr None
   \<and> fst (HTTP_init example_env None None None example_world) =
       Inr \<lparr>http_session = RequestsSession 7, http_headers = headers example_env,
            http_proxy = None, http_proxy_auth = None, http_u_proxy = None,
            http_u_proxy_auth = None\<rparr>
   \<and> next_object (snd (HTTP_init example_env None None None example_world)) = 8
   \<and> fst (AsyncHttp_init example_env None None None example_world) =
       Inr \<lparr>async_session = AiohttpSession 7, async_headers = headers example_env,
            async_proxy = None, async_proxy_auth = None, async_u_proxy_auth = None\<rparr>
   \<and> sent (snd (HTTP_init example_env None None None example_world)) = []
   \<and> sent (snd (AsyncHttp_init example_env None None None example_world)) = []"
proof -
  have e: "sent example_world = []" "next_object example_world = 7"
    by (simp_all add: example_world_def)
  have p: "proxy_url example_env None = Inr None" by (simp add: proxy_url_def)
  have b: "proxy_basic_auth None None = Inr None" by (simp add: proxy_basic_auth_def)
  have 1: "fst (HTTP_init example_env None None None example_world) =
       Inr \<lparr>http_session = RequestsSession 7, http_headers = headers example_env,
            http_proxy = None, http_proxy_auth = None, http_u_proxy = None,
            http_u_proxy_auth = None\<rparr>"
    by (simp add: HTTP_init_def p proxy_set_def e)
  have 2: "fst (AsyncHttp_init example_env None None None example_world) =
       Inr \<lparr>async_session = AiohttpSession 7, async_headers = headers example_env,
            async_proxy = None, async_proxy_auth = None, async_u_proxy_auth = None\<rparr>"
    by (simp add: AsyncHttp_init_def p b e)
  have 3: "next_object (snd (HTTP_init example_env None None None example_world)) = 8"
    by (simp add: HTTP_init_def p proxy_set_def e)
  show ?thesis
    using session_checked_at_construction [where s = "OtherObject 4" and E = example_env
        and proxy = None and proxy_auth = None and w = example_world and p = None
        and a = None and session = None] p b e 1 2 3
    apply (intro conjI)
    apply simp_all
    done
qed

section \<open>The calls of the operations\<close>

lemma calls_added_refl: "sent w' = sent w \<Longrightarrow> calls_added P w w'"
  by (simp add: calls_added_def)

lemma calls_added_one: "sent w' = sent w @ [c] \<Longrightarrow> P c \<Longrightarrow> calls_added P w w'"
  by (simp add: calls_added_def)

lemma calls_added_trans:
  assumes "calls_added P w w'" and "calls_added P w' w''"
  shows "calls_added P w w''"
proof -
  from assms obtain cs cs' where "sent w' = sent w @ cs" "list_all P cs"
    "sent w'' = sent w' @ cs'" "list_all P cs'"
    unfolding calls_added_def by blast
  then have "sent w'' = sent w @ (cs @ cs')" "list_all P (cs @ cs')" by simp_all
  then show ?thesis unfolding calls_added_def by blast
qed

lemma sink_write_sent: "sent (snd (sink_write h data w)) = sent w"
  by (simp add: sink_write_def)

lemma write_target_sent: "sent (snd (write_target E fp data w)) = sent w"
  by (cases fp)
     (simp_all add: write_target_def sink_write_sent file_open_wb_def file_write_def
        file_close_def)

lemma dl_sent: "sent (snd (dl E s hs fp url w)) = sent w @ [get_call s hs url]"
  by (simp add: dl_def Let_def write_target_sent split: sum.split)

lemma dl_calls:
  "P (get_call s hs url) \<Longrightarrow> calls_added P w (snd (dl E s hs fp url w))"
  by (rule calls_added_one [OF dl_sent])

lemma dl_value_calls:
  assumes "\<And>url. P (get_call s hs url)"
  shows "calls_added P w (snd (dl_value E s hs fp v w))"
proof (cases "\<exists>url. v = Json (JStr url)")
  case True
  then obtain url where "v = Json (JStr url)" by blast
  then show ?thesis by (simp add: dl_value_def dl_calls assms)
next
  case False
  then have "dl_value E s hs fp v w = (Inl ConnectionError, w)"
    by (auto simp: dl_value_def split: py_value.split json_value.split)
  then show ?thesis by (simp add: calls_added_refl)
qed

lemma HTTP_request_calls:
  assumes "P (HTTP_request_call T r kwargs)"
  shows "calls_added P w (snd (HTTP_request E T r kwargs w))"
proof (cases "keyword_clash [''method'', ''url'', ''headers'', ''proxies'', ''auth'', ''timeout''] kwargs")
  case True
  then show ?thesis by (simp add: HTTP_request_def calls_added_refl)
next
  case False
  then have "sent (snd (HTTP_request E T r kwargs w)) = sent w @ [HTTP_request_call T r kwargs]"
    by (simp add: HTTP_request_def Let_def split: sum.split)
  then show ?thesis using assms by (rule calls_added_one)
qed

lemma AsyncHttp_request_calls:
  assumes "P (AsyncHttp_request_call T r kwargs)"
  shows "calls_added P w (snd (AsyncHttp_request E T r kwargs w))"
proof (cases "keyword_clash [''method'', ''url'', ''headers'', ''proxy'', ''proxy_auth''] kwargs")
  case True
  then show ?thesis by (simp add: AsyncHttp_request_def calls_added_refl)
next
  case False
  then have "sent (snd (AsyncHttp_request E T r kwargs w)) =
             sent w @ [AsyncHttp_request_call T r kwargs]"
    by (simp add: AsyncHttp_request_def Let_def split: sum.split)
  then show ?thesis using assms by (rule calls_added_one)
qed

lemma HTTP_get_gif_calls:
  assumes "\<And>r. P (HTTP_request_call T r params)"
  shows "calls_added P w (snd (HTTP_get_gif E T ident params w))"
  by (simp add: HTTP_get_gif_def HTTP_request_calls assms calls_added_refl split: sum.split)

lemma HTTP_download_calls:
  assumes req: "\<And>r. P (HTTP_request_call T r [])"
      and get: "\<And>url. P (get_call (http_session T) (http_headers T) url)"
  shows "calls_added P w (snd (HTTP_download E T url fp w))"
proof (cases "yarl_URL E url")
  case (Inl e)
  then show ?thesis by (simp add: HTTP_download_def calls_added_refl)
next
  case (Inr u)
  show ?thesis
  proof (cases "str_contains ''thumbs'' (str_host u) \<and> str_contains ''redgifs'' (str_host u)")
    case True
    then show ?thesis
      using Inr by (simp add: HTTP_download_def Let_def dl_calls get calls_added_refl)
  next
    case direct: False
    show ?thesis
    proof (cases "str_contains ''watch'' (url_path u)")
      case False
      then show ?thesis
        using Inr direct by (auto simp: HTTP_download_def Let_def calls_added_refl)
    next
      case True
      obtain res w1 where g: "HTTP_get_gif E T (strip ''/watch/'' (url_path u)) [] w = (res, w1)"
        by (cases "HTTP_get_gif E T (strip ''/watch/'' (url_path u)) [] w")
      have c1: "calls_added P w w1"
        using HTTP_get_gif_calls [of P T "[]" w E "strip ''/watch/'' (url_path u)"] req g
        by simp
      have c2: "calls_added P w1 (snd (dl_value E (http_session T) (http_headers T) fp v w1))"
        for v by (rule dl_value_calls) (rule get)
      have "calls_added P w1 (snd (HTTP_download E T url fp w))"
        using Inr direct True g c2
        by (auto simp: HTTP_download_def Let_def calls_added_refl split: sum.split)
      with c1 show ?thesis by (rule calls_added_trans)
    qed
  qed
qed

lemma AsyncHttp_download_calls:
  assumes get: "\<And>url. P (get_call (async_session T) (async_headers T) url)"
  shows "calls_added P w (snd (AsyncHttp_download E T url fp w))"
proof -
  have c: "calls_added P w (snd (dl_value E (async_session T) (async_headers T) fp v w))"
    for v by (rule dl_value_calls) (rule get)
  show ?thesis
    by (simp add: AsyncHttp_download_def Let_def calls_added_refl dl_calls get c
        split: sum.split)
qed

lemma proxy_url_none: "proxy = None \<or> proxy = Some [] \<Longrightarrow> proxy_url E proxy = Inr None"
  by (auto simp: proxy_url_def)

lemma HTTP_init_no_proxy:
  assumes "proxy = None \<or> proxy = Some []"
      and "HTTP_init E session proxy proxy_auth w0 = (Inr T, w1)"
  shows "http_u_proxy T = None \<and> http_u_proxy_auth T = None \<and> http_headers T = headers E"
  using assms(2) proxy_url_none [OF assms(1), of E]
  by (auto simp: HTTP_init_def Let_def proxy_set_def split: if_splits)

lemma AsyncHttp_init_no_proxy:
  assumes "proxy = None \<or> proxy = Some []"
      and "AsyncHttp_init E session proxy proxy_auth w0 = (Inr T, w1)"
  shows "async_proxy T = None \<and> async_u_proxy_auth T = None \<and> async_headers T = headers E"
  using assms(2) proxy_url_none [OF assms(1), of E]
  by (auto simp: AsyncHttp_init_def Let_def proxy_set_def proxy_basic_auth_def
      split: if_splits option.splits)

lemma credential_free_get_call: "credential_free (get_call s (headers E) url)"
  by (simp add: credential_free_def get_call_def headers_def)

lemma credential_free_HTTP_request_call:
  "http_u_proxy T = None \<Longrightarrow> http_u_proxy_auth T = None \<Longrightarrow> http_headers T = headers E \<Longrightarrow>
   credential_free (HTTP_request_call T r kwargs)"
  by (simp add: credential_free_def HTTP_request_call_def headers_def)

lemma credential_free_AsyncHttp_request_call:
  "async_proxy T = None \<Longrightarrow> async_u_proxy_auth T = None \<Longrightarrow> async_headers T = headers E \<Longrightarrow>
   credential_free (AsyncHttp_request_call T r kwargs)"
  by (simp add: credential_free_def AsyncHttp_request_call_def headers_def)

text \<open>
  Claim C10. When a transport is constructed with proxy credentials and without a proxy
  (none, or the empty string), the credentials are dropped: \<open>_proxy_auth\<close> is \<open>None\<close>,
  and every call that \<open>request\<close> or \<open>download\<close> then hands to the session, in whatever
  state, is given no \<open>auth\<close> (for the origin server), no \<open>proxy_auth\<close> and no proxy, and
  no header beside the \<open>User-Agent\<close>.
\<close>

theorem proxy_credentials_dropped_without_proxy:
  assumes "proxy = None \<or> proxy = Some []"
  shows "(HTTP_init E session proxy (Some credentials) w0 = (Inr T, w1) \<longrightarrow>
            http_u_proxy_auth T = None
            \<and> calls_added credential_free w (snd (HTTP_request E T r kwargs w))
            \<and> calls_added credential_free w (snd (HTTP_download E T url fp w)))
       \<and> (AsyncHttp_init E session proxy (Some credentials) w0 = (Inr T', w1') \<longrightarrow>
            async_u_proxy_auth T' = None
            \<and> calls_added credential_free w (snd (AsyncHttp_request E T' r kwargs w))
            \<and> calls_added credential_free w (snd (AsyncHttp_download E T' url fp w)))"
proof (intro conjI impI)
  assume "HTTP_init E session proxy (Some credentials) w0 = (Inr T, w1)"
  from HTTP_init_no_proxy [OF assms this]
  have T: "http_u_proxy T = None" "http_u_proxy_auth T = None" "http_headers T = headers E"
    by simp_all
  show "http_u_proxy_auth T = None" by (rule T)
  show "calls_added credential_free w (snd (HTTP_request E T r kwargs w))"
    by (rule HTTP_request_calls) (rule credential_free_HTTP_request_call [OF T])
  show "calls_added credential_free w (snd (HTTP_download E T url fp w))"
    by (rule HTTP_download_calls)
       (simp_all add: credential_free_HTTP_request_call [OF T] T credential_free_get_call)
next
  assume "AsyncHttp_init E session proxy (Some credentials) w0 = (Inr T', w1')"
  from AsyncHttp_init_no_proxy [OF assms this]
  have T: "async_proxy T' = None" "async_u_proxy_auth T' = None" "async_headers T' = headers E"
    by simp_all
  show "async_u_proxy_auth T' = None" by (rule T)
  show "calls_added credential_free w (snd (AsyncHttp_request E T' r kwargs w))"
    by (rule AsyncHttp_request_calls) (rule credential_free_AsyncHttp_request_call [OF T])
  show "calls_added credential_free w (snd (AsyncHttp_download E T' url fp w))"
    by (rule AsyncHttp_download_calls) (simp add: T credential_free_get_call)
qed

theorem proxy_credentials_dropped_without_proxy_witness:
  "HTTP_init example_env None None (Some (''user'', ''secret'')) example_world =
     (Inr \<lparr>http_session = RequestsSession 7, http_headers = headers example_env,
           http_proxy = None, http_proxy_auth = Some (''user'', ''secret''),
           http_u_proxy = None, http_u_proxy_auth = None\<rparr>,
      example_world\<lparr>next_object := 8\<rparr>)
   \<and> sent (snd (HTTP_request example_env
          \<lparr>http_session = RequestsSession 7, http_headers = headers example_env,
           http_proxy = None, http_proxy_auth = Some (''user'', ''secret''),
           http_u_proxy = None, http_u_proxy_auth = None\<rparr>
          (example_route ''somename'') [] example_world)) =
       [\<lparr>call_session = RequestsSession 7, call_method = ''GET'',
         call_url = ''https://api.redgifs.com/v2/gifs/somename'',
         call_headers = headers example_env, call_proxies = None, call_auth = None,
         call_timeout = Some 60, call_proxy = None, call_proxy_auth = None,
         call_kwargs = []\<rparr>]
   \<and> calls_added credential_free example_world
         (snd (HTTP_request example_env
          \<lparr>http_session = RequestsSession 7, http_headers = headers example_env,
           http_proxy = None, http_proxy_auth = Some (''user'', ''secret''),
           http_u_proxy = None, http_u_proxy_auth = None\<rparr>
          (example_route ''somename'') [] example_world))
   \<and> AsyncHttp_init example_env None None (Some (''user'', ''secret'')) example_world =
     (Inr \<lparr>async_session = AiohttpSession 7, async_headers = headers example_env,
           async_proxy = None, async_proxy_auth = Some (''user'', ''secret''),
           async_u_proxy_auth = None\<rparr>,
      example_world\<lparr>next_object := 8\<rparr>)
   \<and> calls_added credential_free example_world
         (snd (AsyncHttp_request example_env
          \<lparr>async_session = AiohttpSession 7, async_headers = headers example_env,
           async_proxy = None, async_proxy_auth = Some (''user'', ''secret''),
           async_u_proxy_auth = None\<rparr>
          (example_route ''somename'') [] example_world))"
proof -
  let ?T = "\<lparr>http_session = RequestsSession 7, http_headers = headers example_env,
           http_proxy = None, http_proxy_auth = Some (''user'', ''secret''),
           http_u_proxy = None, http_u_proxy_auth = None\<rparr>"
  let ?A = "\<lparr>async_session = AiohttpSession 7, async_headers = headers example_env,
           async_proxy = None, async_proxy_auth = Some (''user'', ''secret''),
           async_u_proxy_auth = None\<rparr>"
  have n: "next_object example_world = 7" by (simp add: example_world_def)
  have i: "HTTP_init example_env None None (Some (''user'', ''secret'')) example_world =
     (Inr ?T, example_world\<lparr>next_object := 8\<rparr>)"
    by (simp add: HTTP_init_def proxy_url_def proxy_set_def n)
  have a: "AsyncHttp_init example_env None None (Some (''user'', ''secret'')) example_world =
     (Inr ?A, example_world\<lparr>next_object := 8\<rparr>)"
    by (simp add: AsyncHttp_init_def proxy_url_def proxy_set_def proxy_basic_auth_def n)
  have s: "sent (snd (HTTP_request example_env ?T (example_route ''somename'') []
             example_world)) =
       [\<lparr>call_session = RequestsSession 7, call_method = ''GET'',
         call_url = ''https://api.redgifs.com/v2/gifs/somename'',
         call_headers = headers example_env, call_proxies = None, call_auth = None,
         call_timeout = Some 60, call_proxy = None, call_proxy_auth = None,
         call_kwargs = []\<rparr>]"
    by (simp add: HTTP_request_def keyword_clash_def HTTP_request_call_def Let_def
        example_route_def example_world_def split: sum.split)
  show ?thesis
    using proxy_credentials_dropped_without_proxy [where proxy = None and E = example_env
        and session = None and credentials = "(''user'', ''secret'')" and ?w0.0 = example_world
        and T = ?T and ?w1.0 = "example_world\<lparr>next_object := 8\<rparr>" and T' = ?A
        and ?w1' = "example_world\<lparr>next_object := 8\<rparr>" and w = example_world
        and r = "example_route ''somename''" and kwargs = "[]"] i a s
    by simp
qed

section \<open>Writing the download: effects\<close>

lemma write_target_path:
  assumes "open_wb_ok E p"
  shows "write_target E (Path p) data w =
           (Inr (int (length data)),
            w\<lparr>files := (files w)(p \<mapsto> data), open_files := open_files w\<rparr>)"
  using assms
  by (simp add: write_target_def file_open_wb_def file_write_def file_close_def)

lemma write_target_sink:
  assumes "\<not> closed (sinks w h)"
  shows "write_target E (Buffered h) data w =
           (Inr (int (length data)),
            w\<lparr>sinks := (sinks w)(h := (sinks w h)\<lparr>written := written (sinks w h) @ data\<rparr>)\<rparr>)"
  using assms by (simp add: write_target_def sink_write_def)

lemma write_target_ready:
  "target_ready E fp w \<Longrightarrow> fst (write_target E fp data w) = Inr (int (length data))"
  by (cases fp) (simp_all add: target_ready_def write_target_path write_target_sink)

lemma dl_response:
  assumes "session_request E (sent w) (get_call s hs url) = Inr resp"
  shows "dl E s hs fp url w =
           write_target E fp (content resp) (w\<lparr>sent := sent w @ [get_call s hs url]\<rparr>)"
  using assms by (simp add: dl_def Let_def)



section \<open>The download resolver\<close>



lemma dl_count:
  assumes "session_request E (sent w) (get_call s hs url) = Inr resp"
      and "target_ready E fp w"
  shows "fst (dl E s hs fp url w) = Inr (int (length (content resp)))"
proof -
  from assms(2) have "target_ready E fp (w\<lparr>sent := sent w @ [get_call s hs url]\<rparr>)"
    by (simp add: target_ready_def split: target.splits)
  then show ?thesis
    by (simp add: dl_response [OF assms(1)] write_target_ready)
qed




text \<open>
  Claim C6, as amended. For a URL whose host does not hold both \<open>thumbs\<close> and
  \<open>redgifs\<close> and whose path does not hold the text \<open>watch\<close>, \<open>download\<close> returns 1
  without raising, and the state is left as it was: nothing is sent, nothing is written.
  This holds for both transports.
\<close>

theorem unrecognised_url_returns_1:
  assumes "yarl_URL E url = Inr u"
      and "\<not> (str_contains ''thumbs'' (str_host u) \<and> str_contains ''redgifs'' (str_host u))"
      and "\<not> str_contains ''watch'' (url_path u)"
  shows "HTTP_download E T url fp w = (Inr 1, w)
       \<and> AsyncHttp_download E T' url fp w = (Inr 1, w)"
  using assms by (auto simp: HTTP_download_def AsyncHttp_download_def Let_def)

theorem unrecognised_url_returns_1_witness:
  "yarl_URL example_env ''https://example.com/unrelated'' =
     Inr (example_url ''example.com'' ''/unrelated'')
   \<and> \<not> (str_contains ''thumbs'' ''example.com'' \<and> str_contains ''redgifs'' ''example.com'')
   \<and> \<not> str_contains ''watch'' ''/unrelated''
   \<and> HTTP_download example_env example_HTTP ''https://example.com/unrelated''
         (Path ''out.mp4'') example_world = (Inr 1, example_world)
   \<and> AsyncHttp_download example_env example_AsyncHttp ''https://example.com/unrelated''
         (Path ''out.mp4'') example_world = (Inr 1, example_world)"
proof -
  have y: "yarl_URL example_env ''https://example.com/unrelated'' =
     Inr (example_url ''example.com'' ''/unrelated'')"
    by (simp add: example_env_def example_URL_def)
  have h: "str_host (example_url ''example.com'' ''/unrelated'') = ''example.com''"
    "url_path (example_url ''example.com'' ''/unrelated'') = ''/unrelated''"
    by (simp_all add: example_url_def str_host_def)
  have d: "\<not> (str_contains ''thumbs'' ''example.com'' \<and> str_contains ''redgifs'' ''example.com'')"
    by simp
  have p: "\<not> str_contains ''watch'' ''/unrelated''" by simp
  show ?thesis
    using unrecognised_url_returns_1 [OF y, of example_HTTP "Path ''out.mp4''" example_world
        example_AsyncHttp] y d p
    by (simp add: h)
qed

text \<open>
  Claim C6 as stated fails. A URL on a \<open>thumbs\<close> host of \<open>redgifs\<close> that does not match
  the asset pattern, and whose path holds no \<open>watch\<close>, matches neither grammar, yet
  \<open>download\<close> raises \<open>TypeError\<close> instead of returning 1. A URL whose path holds
  \<open>watch\<close> inside a longer segment matches neither grammar either, yet \<open>download\<close>
  sends a metadata lookup.
\<close>

theorem unrecognised_url_counterexample:
  "\<not> re_match_THUMBS example_env ''https://thumbs44.redgifs.com/''
   \<and> \<not> str_contains ''watch'' ''/''
   \<and> fst (HTTP_download example_env example_HTTP ''https://thumbs44.redgifs.com/''
            (Path ''out.mp4'') example_world) =
       Inl (TypeError (invalid_url_message ''https://thumbs44.redgifs.com/''))
   \<and> fst (AsyncHttp_download example_env example_AsyncHttp ''https://thumbs44.redgifs.com/''
            (Path ''out.mp4'') example_world) =
       Inl (TypeError (invalid_url_message ''https://thumbs44.redgifs.com/''))
   \<and> map call_url (sent (snd (HTTP_download example_env example_HTTP
            ''https://example.com/stopwatches'' (Path ''out.mp4'') example_world))) =
       [''https://api.redgifs.com/v2/gifs/stopwatches'']"
proof -
  have 1: "\<not> re_match_THUMBS example_env ''https://thumbs44.redgifs.com/''"
    by (simp add: example_env_def)
  have 2: "fst (HTTP_download example_env example_HTTP ''https://thumbs44.redgifs.com/''
            (Path ''out.mp4'') example_world) =
       Inl (TypeError (invalid_url_message ''https://thumbs44.redgifs.com/''))"
    by (simp add: HTTP_download_def example_env_def example_URL_def example_url_def
        str_host_def)
  have 3: "fst (AsyncHttp_download example_env example_AsyncHttp ''https://thumbs44.redgifs.com/''
            (Path ''out.mp4'') example_world) =
       Inl (TypeError (invalid_url_message ''https://thumbs44.redgifs.com/''))"
    by (simp add: AsyncHttp_download_def example_env_def example_URL_def example_url_def
        str_host_def)
  have s: "strip ''/watch/'' ''/stopwatches'' = ''stopwatches''"
    by (simp add: strip_def)
  have r: "Route ''GET'' ''/v2/gifs/{id}'' [(''id'', PStr ''stopwatches'')] =
      Inr \<lparr>route_method = ''GET'', route_path = ''/v2/gifs/{id}'',
           route_url = ''https://api.redgifs.com/v2/gifs/stopwatches''\<rparr>"
    by (simp add: Route_def keyword_clash_def BASE_def format_map_def quoted_parameters_def
        prepend_def positional_def quote_def quoter_def ALWAYS_SAFE_def)
  have 4: "map call_url (sent (snd (HTTP_download example_env example_HTTP
            ''https://example.com/stopwatches'' (Path ''out.mp4'') example_world))) =
       [''https://api.redgifs.com/v2/gifs/stopwatches'']"
    by (simp add: HTTP_download_def example_env_def example_URL_def example_url_def
        str_host_def s HTTP_get_gif_def r HTTP_request_def keyword_clash_def
        HTTP_request_call_def example_session_request_def example_world_def)
  from 1 2 3 4 show ?thesis by simp
qed

text \<open>
  Claim C2 fails on the code in two ways. On the non-blocking transport the watch-page
  branch calls the inherited \<open>get_gif\<close> without \<open>await\<close>: it gets a coroutine object,
  subscripting it raises \<open>TypeError\<close>, and no lookup is sent and nothing is written. On
  both transports the identifier is taken with \<open>strip('/watch/')\<close>, which removes every
  leading and trailing character among \<open>/ w a t c h\<close>: for the page of
  \<open>agileblackcat\<close> the lookup asks for \<open>gileblack\<close>.
\<close>

theorem watch_page_download_defects:
  "AsyncHttp_download example_env example_AsyncHttp ''https://www.redgifs.com/watch/somename''
      (Path ''out.mp4'') example_world =
     (Inl (TypeError (not_subscriptable ''coroutine'')), example_world)
   \<and> strip ''/watch/'' ''/watch/agileblackcat'' = ''gileblack''
   \<and> map call_url (sent (snd (HTTP_download example_env example_HTTP
          ''https://www.redgifs.com/watch/agileblackcat'' (Path ''out.mp4'') example_world))) =
       [''https://api.redgifs.com/v2/gifs/gileblack'']"
proof -
  have s: "strip ''/watch/'' ''/watch/somename'' = ''somename''"
    "strip ''/watch/'' ''/watch/agileblackcat'' = ''gileblack''"
    by (simp_all add: strip_def)
  have r: "Route ''GET'' ''/v2/gifs/{id}'' [(''id'', PStr ''somename'')] =
      Inr \<lparr>route_method = ''GET'', route_path = ''/v2/gifs/{id}'',
           route_url = ''https://api.redgifs.com/v2/gifs/somename''\<rparr>"
    "Route ''GET'' ''/v2/gifs/{id}'' [(''id'', PStr ''gileblack'')] =
      Inr \<lparr>route_method = ''GET'', route_path = ''/v2/gifs/{id}'',
           route_url = ''https://api.redgifs.com/v2/gifs/gileblack''\<rparr>"
    by (simp_all add: Route_def keyword_clash_def BASE_def format_map_def
        quoted_parameters_def prepend_def positional_def quote_def quoter_def ALWAYS_SAFE_def)
  have 1: "AsyncHttp_download example_env example_AsyncHttp
      ''https://www.redgifs.com/watch/somename'' (Path ''out.mp4'') example_world =
     (Inl (TypeError (not_subscriptable ''coroutine'')), example_world)"
    by (simp add: AsyncHttp_download_def example_env_def example_URL_def example_url_def
        str_host_def s AsyncHttp_get_gif_def r)
  have 2: "map call_url (sent (snd (HTTP_download example_env example_HTTP
          ''https://www.redgifs.com/watch/agileblackcat'' (Path ''out.mp4'') example_world))) =
       [''https://api.redgifs.com/v2/gifs/gileblack'']"
    by (simp add: HTTP_download_def example_env_def example_URL_def example_url_def
        str_host_def s HTTP_get_gif_def r HTTP_request_def keyword_clash_def
        HTTP_request_call_def example_session_request_def example_world_def)
  from 1 s(2) 2 show ?thesis by simp
qed

section \<open>The watch-page branch on the blocking transport\<close>

lemma Route_gif: "Route ''GET'' ''/v2/gifs/{id}'' [(''id'', PStr ident)] = Inr (gif_route ident)"
proof -
  have v: "valid_template [Text ''/v2/gifs/'', Placeholder ''id'']"
    by (simp add: brace_free_def placeholder_name_def positional_def)
  have c: "set (placeholders [Text ''/v2/gifs/'', Placeholder ''id''])
             \<subseteq> fst ` set [(''id'', PStr ident)]"
    by simp
  have k: "\<not> keyword_clash [''self'', ''method'', ''path''] [(''id'', PStr ident)]"
    by (simp add: keyword_clash_def)
  have i: "list_all spec_value (map snd [(''id'', PStr ident)])" by simp
  show ?thesis
    using Route_template [OF v c k i, of "''GET''"] by (simp add: gif_route_def)
qed

lemma HTTP_get_gif_200:
  assumes "session_request E (sent w) (HTTP_request_call T (gif_route ident) []) = Inr resp"
      and "json resp = Some js" and "status_code resp = 200"
  shows "HTTP_get_gif E T ident [] w =
           (Inr js, w\<lparr>sent := sent w @ [HTTP_request_call T (gif_route ident) []]\<rparr>)"
proof -
  have k: "\<not> keyword_clash [''method'', ''url'', ''headers'', ''proxies'', ''auth'', ''timeout''] []"
    by (simp add: keyword_clash_def)
  show ?thesis
    using assms(2,3)
    by (simp add: HTTP_get_gif_def Route_gif HTTP_request_response [OF k assms(1)]
        status_gate_def)
qed

text \<open>
  The watch-page branch as it works on the blocking transport. For a URL that is not taken
  for a direct asset and whose path holds \<open>watch\<close>: \<open>download\<close> looks up
  \<open>GET /v2/gifs/{id}\<close> through \<open>request\<close> for the identifier that
  \<open>strip('/watch/')\<close> leaves of the path; when the answer has status 200 and holds a
  string at \<open>gif.urls.hd\<close>, it fetches that URL, writes the body to the target and
  returns its byte count. These two calls are the only ones made.
\<close>

theorem HTTP_download_watch_page:
  assumes "yarl_URL E url = Inr u"
      and "\<not> (str_contains ''thumbs'' (str_host u) \<and> str_contains ''redgifs'' (str_host u))"
      and "str_contains ''watch'' (url_path u)"
      and "session_request E (sent w)
             (HTTP_request_call T (gif_route (strip ''/watch/'' (url_path u))) []) = Inr resp"
      and "json resp = Some js" and "status_code resp = 200"
      and "subscripts (Json js) [''gif'', ''urls'', ''hd''] = Inr (Json (JStr hd_url))"
      and "session_request E
             (sent w @ [HTTP_request_call T (gif_route (strip ''/watch/'' (url_path u))) []])
             (get_call (http_session T) (http_headers T) hd_url) = Inr body"
      and "target_ready E fp w"
  shows "fst (HTTP_download E T url fp w) = Inr (int (length (content body)))
       \<and> sent (snd (HTTP_download E T url fp w)) =
           sent w @ [HTTP_request_call T (gif_route (strip ''/watch/'' (url_path u))) [],
                     get_call (http_session T) (http_headers T) hd_url]"
proof -
  let ?lookup = "HTTP_request_call T (gif_route (strip ''/watch/'' (url_path u))) []"
  let ?w1 = "w\<lparr>sent := sent w @ [?lookup]\<rparr>"
  have g: "HTTP_get_gif E T (strip ''/watch/'' (url_path u)) [] w = (Inr js, ?w1)"
    by (rule HTTP_get_gif_200 [OF assms(4,5,6)])
  have d: "HTTP_download E T url fp w =
             dl E (http_session T) (http_headers T) fp hd_url ?w1"
    using assms(1,2,3,7) g
    by (auto simp: HTTP_download_def Let_def dl_value_def)
  have r: "session_request E (sent ?w1) (get_call (http_session T) (http_headers T) hd_url) =
             Inr body"
    using assms(8) by simp
  have t: "target_ready E fp ?w1"
    using assms(9) by (simp add: target_ready_def split: target.splits)
  show ?thesis
    by (simp add: d dl_count [OF r t] dl_sent)
qed

theorem HTTP_download_watch_page_witness:
  "yarl_URL example_env ''https://www.redgifs.com/watch/somename'' =
     Inr (example_url ''www.redgifs.com'' ''/watch/somename'')
   \<and> \<not> (str_contains ''thumbs'' ''www.redgifs.com'' \<and> str_contains ''redgifs'' ''www.redgifs.com'')
   \<and> str_contains ''watch'' ''/watch/somename''
   \<and> strip ''/watch/'' ''/watch/somename'' = ''somename''
   \<and> target_ready example_env (Path ''out.mp4'') example_world
   \<and> fst (HTTP_download example_env example_HTTP ''https://www.redgifs.com/watch/somename''
            (Path ''out.mp4'') example_world) = Inr 8
   \<and> map call_url (sent (snd (HTTP_download example_env example_HTTP
            ''https://www.redgifs.com/watch/somename'' (Path ''out.mp4'') example_world))) =
       [''https://api.redgifs.com/v2/gifs/somename'',
        ''https://thumbs44.redgifs.com/SomeName.mp4'']"
proof -
  let ?u = "example_url ''www.redgifs.com'' ''/watch/somename''"
  let ?js = "example_gif ''https://thumbs44.redgifs.com/SomeName.mp4''"
  let ?resp = "\<lparr>status_code = 200, content = ''(gif somename)'', json = Some ?js\<rparr>"
  let ?body = "\<lparr>status_code = 200, content = ''HD-BYTES'', json = None\<rparr>"
  have y: "yarl_URL example_env ''https://www.redgifs.com/watch/somename'' = Inr ?u"
    by (simp add: example_env_def example_URL_def)
  have h: "str_host ?u = ''www.redgifs.com''" "url_path ?u = ''/watch/somename''"
    by (simp_all add: example_url_def str_host_def)
  have n: "\<not> (str_contains ''thumbs'' (str_host ?u) \<and> str_contains ''redgifs'' (str_host ?u))"
    unfolding h by simp
  have p: "str_contains ''watch'' (url_path ?u)"
    unfolding h by simp
  have s: "strip ''/watch/'' ''/watch/somename'' = ''somename''"
    by (simp add: strip_def)
  have q: "quote ''somename'' = ''somename''"
    by (simp add: quote_def quoter_def ALWAYS_SAFE_def)
  have c1: "call_url (HTTP_request_call example_HTTP (gif_route ''somename'') []) =
              ''https://api.redgifs.com/v2/gifs/somename''"
    by (simp add: HTTP_request_call_def gif_route_def BASE_def q)
  have c2: "call_url (get_call a b c) = c" for a b c
    by (simp add: get_call_def)
  have r1: "session_request example_env (sent example_world)
             (HTTP_request_call example_HTTP (gif_route (strip ''/watch/'' (url_path ?u))) []) =
            Inr ?resp"
    unfolding h s by (simp add: example_env_def example_session_request_def c1)
  have j: "json ?resp = Some ?js" "status_code ?resp = 200" by simp_all
  have k: "subscripts (Json ?js) [''gif'', ''urls'', ''hd''] =
             Inr (Json (JStr ''https://thumbs44.redgifs.com/SomeName.mp4''))"
    by (simp add: example_gif_def)
  have r2: "session_request example_env
             (sent example_world @
                [HTTP_request_call example_HTTP (gif_route (strip ''/watch/'' (url_path ?u))) []])
             (get_call (http_session example_HTTP) (http_headers example_HTTP)
                ''https://thumbs44.redgifs.com/SomeName.mp4'') = Inr ?body"
    by (simp add: example_env_def example_session_request_def c2)
  have t: "target_ready example_env (Path ''out.mp4'') example_world"
    by (simp add: target_ready_def example_env_def)
  have e: "sent example_world = []" by (simp add: example_world_def)
  from HTTP_download_watch_page [OF y n p r1 j k r2 t]
  have "fst (HTTP_download example_env example_HTTP ''https://www.redgifs.com/watch/somename''
            (Path ''out.mp4'') example_world) = Inr 8"
    and "map call_url (sent (snd (HTTP_download example_env example_HTTP
            ''https://www.redgifs.com/watch/somename'' (Path ''out.mp4'') example_world))) =
       [''https://api.redgifs.com/v2/gifs/somename'',
        ''https://thumbs44.redgifs.com/SomeName.mp4'']"
    unfolding h s by (simp_all add: e c1 c2)
  then show ?thesis
    using y n p s t unfolding h by simp
qed

end
